theory Spec2Isabelle
  imports Main "HOL-Library.Sublist" "HOL-Library.Word"
begin

section \<open>Python text primitives\<close>

text \<open>
  The manifest text is a \<^typ>\<open>string\<close>, a list of 8-bit characters. The scripts only
  search for ASCII markers and splice at the offsets found, so the model follows them
  character by character.
\<close>

definition TAB :: char where
  "TAB = CHR 0x09"

definition NL :: char where
  "NL = CHR 0x0A"

definition CR :: char where
  "CR = CHR 0x0D"

text \<open>
  Slice bounds as Python normalises them: a negative bound counts from the end and is
  clamped at 0, a bound past the end is clamped at the length.
\<close>

definition slice_index :: "int \<Rightarrow> nat \<Rightarrow> nat" where
  "slice_index i n = (if i < 0 then nat (int n + i) else min (nat i) n)"

text \<open>\<^verbatim>\<open>s[:e]\<close> and \<^verbatim>\<open>s[e:]\<close>.\<close>

definition slice_to :: "string \<Rightarrow> int \<Rightarrow> string" where
  "slice_to s e = take (slice_index e (length s)) s"

definition slice_from :: "string \<Rightarrow> int \<Rightarrow> string" where
  "slice_from s e = drop (slice_index e (length s)) s"

text \<open>\<^verbatim>\<open>t.startswith(s)\<close>, comparing character by character and stopping at the first difference.\<close>

fun starts_with :: "string \<Rightarrow> string \<Rightarrow> bool" where
  "starts_with [] t = True"
| "starts_with (x # xs) [] = False"
| "starts_with (x # xs) (y # ys) = (if x = y then starts_with xs ys else False)"

text \<open>Offset of the first occurrence of \<open>sub\<close> in a text, scanning from its head.\<close>

fun find_at :: "string \<Rightarrow> string \<Rightarrow> nat option" where
  "find_at sub [] = (if sub = [] then Some 0 else None)"
| "find_at sub (c # cs) =
     (if starts_with sub (c # cs) then Some 0 else map_option Suc (find_at sub cs))"

text \<open>
  \<^verbatim>\<open>s.find(sub, start)\<close>: the lowest index at or after \<open>start\<close> where \<open>sub\<close> occurs, or
  \<open>-1\<close>. The start is normalised like a slice bound; a start past the end finds nothing.
\<close>

definition str_find :: "string \<Rightarrow> string \<Rightarrow> int \<Rightarrow> int" where
  "str_find s sub start =
     (if start > int (length s) then - 1
      else let k = slice_index start (length s)
           in case find_at sub (drop k s) of
                None \<Rightarrow> - 1
              | Some j \<Rightarrow> int (k + j))"

text \<open>
  \<^verbatim>\<open>content[:e] + ins + content[e:]\<close>, the splice every insertion step of both scripts
  performs.
\<close>

definition splice :: "string \<Rightarrow> int \<Rightarrow> string \<Rightarrow> string" where
  "splice content e ins = slice_to content e @ ins @ slice_from content e"

text \<open>
  What text mode does to line ends on reading (\<^verbatim>\<open>open(p, 'r')\<close>, no \<^verbatim>\<open>newline\<close> argument):
  a carriage return followed by a line feed, and a carriage return alone, both become one
  line feed.
\<close>

fun universal_newlines :: "string \<Rightarrow> string" where
  "universal_newlines [] = []"
| "universal_newlines [c] = (if c = CR then [NL] else [c])"
| "universal_newlines (c # d # cs) =
     (if c = CR
      then (if d = NL then NL # universal_newlines cs else NL # universal_newlines (d # cs))
      else c # universal_newlines (d # cs))"

text \<open>\<^verbatim>\<open>os.path.basename\<close>: what follows the last slash.\<close>

definition basename :: "string \<Rightarrow> string" where
  "basename p = rev (takeWhile (\<lambda>c. c \<noteq> CHR ''/'') (rev p))"


section \<open>Identifier allocation\<close>

text \<open>
  \<^verbatim>\<open>uuid.uuid4()\<close> is the only source of randomness. The model takes the 128-bit integers of
  the successive calls as a parameter \<open>rng\<close> (call number to value); \<open>hex32\<close> is the
  \<^verbatim>\<open>.hex\<close> attribute (32 lower-case hexadecimal digits), and \<open>generate_uuid\<close> is
  \<^verbatim>\<open>uuid.uuid4().hex[:24].upper()\<close> on one such value.
\<close>

type_synonym rng = "nat \<Rightarrow> 128 word"

definition hex_digit :: "nat \<Rightarrow> char" where
  "hex_digit n = ''0123456789abcdef'' ! n"

definition hex32 :: "128 word \<Rightarrow> string" where
  "hex32 w = map (\<lambda>i. hex_digit (unat w div 16 ^ (31 - i) mod 16)) [0..<32]"

definition upper_char :: "char \<Rightarrow> char" where
  "upper_char c =
     (case map_of (zip ''abcdefghijklmnopqrstuvwxyz'' ''ABCDEFGHIJKLMNOPQRSTUVWXYZ'') c of
        Some u \<Rightarrow> u
      | None \<Rightarrow> c)"

definition generate_uuid :: "128 word \<Rightarrow> string" where
  "generate_uuid w = map upper_char (take 24 (hex32 w))"


section \<open>add_files_auto.py\<close>

subsection \<open>Entries and their records\<close>

record file_entry =
  filepath :: string
  filename :: string
  file_ref_uuid :: string
  build_file_uuid :: string

text \<open>
  The first loop of \<open>add_files_to_pbxproj\<close>: two identifiers per file, drawn in input
  order; \<open>k\<close> counts the calls to \<^verbatim>\<open>uuid4\<close> made so far.
\<close>

fun file_entries :: "rng \<Rightarrow> nat \<Rightarrow> string list \<Rightarrow> file_entry list" where
  "file_entries rng k [] = []"
| "file_entries rng k (fp # fps) =
     \<lparr>filepath = fp, filename = basename fp,
      file_ref_uuid = generate_uuid (rng k),
      build_file_uuid = generate_uuid (rng (Suc k))\<rparr>
     # file_entries rng (Suc (Suc k)) fps"

definition build_file_entry :: "file_entry \<Rightarrow> string" where
  "build_file_entry e =
     [TAB, TAB] @ build_file_uuid e @ '' /* '' @ filename e
     @ '' in Sources */ = {isa = PBXBuildFile; fileRef = '' @ file_ref_uuid e
     @ '' /* '' @ filename e @ '' */; };'' @ [NL]"

definition file_ref_entry :: "file_entry \<Rightarrow> string" where
  \<open>file_ref_entry e =
     [TAB, TAB] @ file_ref_uuid e @ '' /* '' @ filename e
     @ '' */ = {isa = PBXFileReference; lastKnownFileType = sourcecode.swift; path = ''
     @ filename e @ ''; sourceTree = "<group>"; };'' @ [NL]\<close>

definition source_ref_entry :: "file_entry \<Rightarrow> string" where
  "source_ref_entry e =
     [TAB, TAB, TAB, TAB] @ build_file_uuid e @ '' /* '' @ filename e
     @ '' in Sources */,'' @ [NL]"

subsection \<open>The text transformation\<close>

text \<open>
  A printed \<^verbatim>\<open>Error: Could not find X\<close> followed by \<^verbatim>\<open>return False\<close> is the error value
  \<open>CouldNotFind X\<close>.
\<close>

datatype patch_error = CouldNotFind string

text \<open>
  Lines 35 to 85 of \<open>add_files_to_pbxproj\<close> work on the buffer \<^verbatim>\<open>content\<close> in three
  phases, one per section. Each phase looks for its \<^verbatim>\<open>Begin\<close> marker and gives up when
  \<^verbatim>\<open>find\<close> answers \<open>-1\<close>; the end offset it then looks for is used as found.
\<close>

definition add_build_file_entries :: "file_entry list \<Rightarrow> string \<Rightarrow> patch_error + string" where
  "add_build_file_entries es content =
     (let build_file_section_start = str_find content ''/* Begin PBXBuildFile section */'' 0
      in if build_file_section_start = - 1 then Inl (CouldNotFind ''PBXBuildFile section'')
      else
      let build_file_section_end =
            str_find content ''/* End PBXBuildFile section */'' build_file_section_start
      in Inr (splice content build_file_section_end (concat (map build_file_entry es))))"

definition add_file_ref_entries :: "file_entry list \<Rightarrow> string \<Rightarrow> patch_error + string" where
  "add_file_ref_entries es content =
     (let file_ref_section_start = str_find content ''/* Begin PBXFileReference section */'' 0
      in if file_ref_section_start = - 1 then Inl (CouldNotFind ''PBXFileReference section'')
      else
      let file_ref_section_end =
            str_find content ''/* End PBXFileReference section */'' file_ref_section_start
      in Inr (splice content file_ref_section_end (concat (map file_ref_entry es))))"

definition add_source_ref_entries :: "file_entry list \<Rightarrow> string \<Rightarrow> patch_error + string" where
  "add_source_ref_entries es content =
     (let sources_build_phase_start =
            str_find content ''/* Begin PBXSourcesBuildPhase section */'' 0
      in if sources_build_phase_start = - 1
         then Inl (CouldNotFind ''PBXSourcesBuildPhase section'')
      else
      let files_array_start = str_find content ''files = ('' sources_build_phase_start
      in if files_array_start = - 1
         then Inl (CouldNotFind ''files array in PBXSourcesBuildPhase'')
      else
      let files_array_end = str_find content '');'' files_array_start
      in Inr (splice content files_array_end (concat (map source_ref_entry es))))"

text \<open>The three phases in order; the first \<^verbatim>\<open>return False\<close> ends the function.\<close>

definition patch_content :: "file_entry list \<Rightarrow> string \<Rightarrow> patch_error + string" where
  "patch_content es content =
     (case add_build_file_entries es content of
        Inl e \<Rightarrow> Inl e
      | Inr content1 \<Rightarrow>
          (case add_file_ref_entries es content1 of
             Inl e \<Rightarrow> Inl e
           | Inr content2 \<Rightarrow> add_source_ref_entries es content2))"

subsection \<open>The file system and the script\<close>

text \<open>
  The world the scripts run in: the files by path, the trace of file-system calls made so
  far, and the faults of the storage. Each Python call that touches the file system is an
  event; \<open>apply_event\<close> is its effect on the files. \<^verbatim>\<open>open(p, 'w')\<close> truncates (or creates)
  the file before anything is written to it, so a write is two events.

  A path with \<open>write_error w p = Some n\<close> takes \<open>n\<close> characters after it has been opened
  for writing and then fails: the write raises \<^verbatim>\<open>OSError\<close> with what was accepted left in
  the file. The scripts run on macOS, where text mode writes a line feed as it is.
\<close>

type_synonym path = string

datatype event =
    Exists path
  | ReadAll path
  | Copy path path
  | Truncate path
  | WriteData path string

record world =
  files :: "path \<rightharpoonup> string"
  trace :: "event list"
  write_error :: "path \<rightharpoonup> nat"

datatype py_error = FileNotFoundError path | OSError path

fun apply_event :: "event \<Rightarrow> (path \<rightharpoonup> string) \<Rightarrow> (path \<rightharpoonup> string)" where
  "apply_event (Exists p) fs = fs"
| "apply_event (ReadAll p) fs = fs"
| "apply_event (Copy src dst) fs = (case fs src of None \<Rightarrow> fs | Some c \<Rightarrow> fs(dst \<mapsto> c))"
| "apply_event (Truncate p) fs = fs(p \<mapsto> [])"
| "apply_event (WriteData p d) fs = fs(p \<mapsto> (case fs p of None \<Rightarrow> d | Some old \<Rightarrow> old @ d))"

definition perform :: "event \<Rightarrow> world \<Rightarrow> world" where
  "perform e w = w\<lparr>files := apply_event e (files w), trace := trace w @ [e]\<rparr>"

text \<open>The part of a text that reaches the file when it is written to a path.\<close>

definition accepted :: "world \<Rightarrow> path \<Rightarrow> string \<Rightarrow> string" where
  "accepted w p content =
     (case write_error w p of None \<Rightarrow> content | Some n \<Rightarrow> take n content)"

text \<open>\<^verbatim>\<open>os.path.exists(p)\<close>.\<close>

definition os_path_exists :: "world \<Rightarrow> path \<Rightarrow> bool \<times> world" where
  "os_path_exists w p = (files w p \<noteq> None, perform (Exists p) w)"

text \<open>
  \<^verbatim>\<open>with open(p, 'r') as f: content = f.read()\<close>: the buffer holds the text of the file
  with its line ends translated.
\<close>

definition read_file :: "world \<Rightarrow> path \<Rightarrow> (py_error + string) \<times> world" where
  "read_file w p =
     (case files w p of
        None \<Rightarrow> (Inl (FileNotFoundError p), w)
      | Some c \<Rightarrow> (Inr (universal_newlines c), perform (ReadAll p) w))"

text \<open>
  \<^verbatim>\<open>with open(p, 'w') as f: f.write(content)\<close>: the file is truncated, then it receives what
  the storage accepts; when that is not the whole text the statement raises.
\<close>

definition write_file :: "world \<Rightarrow> path \<Rightarrow> string \<Rightarrow> (py_error + unit) \<times> world" where
  "write_file w p content =
     (let a = accepted w p content;
          w2 = perform (WriteData p a) (perform (Truncate p) w)
      in (if a = content then Inr () else Inl (OSError p), w2))"

text \<open>
  \<^verbatim>\<open>shutil.copy2(src, dst)\<close>: it raises when the source is missing, and when the
  destination does not take the whole content.
\<close>

definition shutil_copy2 :: "world \<Rightarrow> path \<Rightarrow> path \<Rightarrow> (py_error + unit) \<times> world" where
  "shutil_copy2 w src dst =
     (case files w src of
        None \<Rightarrow> (Inl (FileNotFoundError src), w)
      | Some c \<Rightarrow>
          (if accepted w dst c = c then (Inr (), perform (Copy src dst) w)
           else (Inl (OSError dst),
                 perform (WriteData dst (accepted w dst c)) (perform (Truncate dst) w))))"

text \<open>What \<open>add_files_to_pbxproj\<close> returns: \<^verbatim>\<open>True\<close>, or \<^verbatim>\<open>False\<close> after the printed error.\<close>

datatype ret = RetTrue | RetFalse patch_error

definition add_files_to_pbxproj ::
    "rng \<Rightarrow> world \<Rightarrow> path \<Rightarrow> path list \<Rightarrow> (py_error + ret) \<times> world" where
  "add_files_to_pbxproj rng w pbxproj_path files_to_add =
     (case read_file w pbxproj_path of
        (Inl err, w1) \<Rightarrow> (Inl err, w1)
      | (Inr content, w1) \<Rightarrow>
          (case patch_content (file_entries rng 0 files_to_add) content of
             Inl e \<Rightarrow> (Inr (RetFalse e), w1)
           | Inr content' \<Rightarrow>
               (case write_file w1 pbxproj_path content' of
                  (Inl err, w2) \<Rightarrow> (Inl err, w2)
                | (Inr _, w2) \<Rightarrow> (Inr RetTrue, w2))))"

text \<open>The loop that collects \<^verbatim>\<open>missing_files\<close>.\<close>

fun missing_files :: "world \<Rightarrow> path list \<Rightarrow> path list \<times> world" where
  "missing_files w [] = ([], w)"
| "missing_files w (fp # fps) =
     (let (ex, w1) = os_path_exists w fp;
          (ms, w2) = missing_files w1 fps
      in (if ex then ms else fp # ms, w2))"

text \<open>
  How a run ends: it runs to its last line, it calls \<^verbatim>\<open>exit(1)\<close> after printing what went
  wrong, or an exception nobody catches ends it.
\<close>

datatype exit_reason =
    MissingSourceFile "path list"
  | Restored patch_error
  | NotFound string

datatype outcome = Completed | Exit1 exit_reason | Uncaught py_error

text \<open>
  The \<^verbatim>\<open>__main__\<close> block, with the two constants it starts from as parameters
  (\<open>pbxproj_path\<close> and \<open>files_to_add\<close> below are the script's own values).
\<close>

definition main :: "rng \<Rightarrow> world \<Rightarrow> path \<Rightarrow> path list \<Rightarrow> outcome \<times> world" where
  "main rng w pbxproj_path files_to_add =
     (let (missing, w1) = missing_files w files_to_add
      in if missing \<noteq> [] then (Exit1 (MissingSourceFile missing), w1)
      else
      let backup_path = pbxproj_path @ ''.backup''
      in case shutil_copy2 w1 pbxproj_path backup_path of
           (Inl err, w2) \<Rightarrow> (Uncaught err, w2)
         | (Inr _, w2) \<Rightarrow>
             (case add_files_to_pbxproj rng w2 pbxproj_path files_to_add of
                (Inl err, w3) \<Rightarrow> (Uncaught err, w3)
              | (Inr RetTrue, w3) \<Rightarrow> (Completed, w3)
              | (Inr (RetFalse e), w3) \<Rightarrow>
                  (case shutil_copy2 w3 backup_path pbxproj_path of
                     (Inl err, w4) \<Rightarrow> (Uncaught err, w4)
                   | (Inr _, w4) \<Rightarrow> (Exit1 (Restored e), w4))))"

definition pbxproj_path :: path where
  "pbxproj_path = ''/Users/karatsidhu/Developer/WardenApp/Warden.xcodeproj/project.pbxproj''"

definition files_to_add :: "path list" where
  "files_to_add =
     [''/Users/karatsidhu/Developer/WardenApp/Warden/Core/MCP/MCPServerConfig.swift'',
      ''/Users/karatsidhu/Developer/WardenApp/Warden/Core/MCP/MCPManager.swift'',
      ''/Users/karatsidhu/Developer/WardenApp/Warden/UI/Preferences/MCP/AddMCPAgentSheet.swift'',
      ''/Users/karatsidhu/Developer/WardenApp/Warden/UI/Preferences/MCP/MCPSettingsView.swift'',
      ''/Users/karatsidhu/Developer/WardenApp/Warden/UI/Chat/MCPAgentSelector.swift'']"


section \<open>Regular expressions\<close>

text \<open>
  The scripts use six patterns, all built from literals, \<^verbatim>\<open>[A-F0-9]{24}\<close>, \<^verbatim>\<open>\s+\<close> and
  \<^verbatim>\<open>[^;]+\<close>. A matcher answers, for a text, the length of the pattern's match at the head
  of that text, or \<open>None\<close>. None of the patterns looks behind, so a match at an offset
  depends on the text from that offset on only.
\<close>

type_synonym matcher = "string \<Rightarrow> nat option"

definition m_lit :: "string \<Rightarrow> matcher" where
  "m_lit s t = (if starts_with s t then Some (length s) else None)"

definition is_hex_upper :: "char \<Rightarrow> bool" where
  "is_hex_upper c = (c \<in> set ''ABCDEF0123456789'')"

text \<open>Whether a text starts with \<open>n\<close> characters of \<^verbatim>\<open>[A-F0-9]\<close>.\<close>

fun hex_run :: "nat \<Rightarrow> string \<Rightarrow> bool" where
  "hex_run n [] = (n = 0)"
| "hex_run n (c # cs) =
     (if n = 0 then True else if is_hex_upper c then hex_run (n - 1) cs else False)"

text \<open>\<^verbatim>\<open>[A-F0-9]{24}\<close>.\<close>

definition m_hex24 :: matcher where
  "m_hex24 t = (if hex_run 24 t then Some 24 else None)"

text \<open>The characters \<^verbatim>\<open>\s\<close> matches in a \<^verbatim>\<open>str\<close> pattern, among the first 256.\<close>

definition is_space :: "char \<Rightarrow> bool" where
  "is_space c =
     (c \<in> set [CHR 0x20, CHR 0x09, CHR 0x0A, CHR 0x0B, CHR 0x0C, CHR 0x0D,
                CHR 0x1C, CHR 0x1D, CHR 0x1E, CHR 0x1F, CHR 0x85, CHR 0xA0])"

text \<open>
  \<^verbatim>\<open>\s+\<close>, where the pattern goes on with a literal that starts with a letter (as it does
  in every use): the literal can only start where the white space ends, so the match is
  the whole run of white space, and it fails when the run is empty.
\<close>

definition m_space1 :: matcher where
  "m_space1 t = (let n = length (takeWhile is_space t) in if n = 0 then None else Some n)"

definition m_seq :: "matcher \<Rightarrow> matcher \<Rightarrow> matcher" where
  "m_seq m1 m2 t =
     (case m1 t of
        None \<Rightarrow> None
      | Some a \<Rightarrow> (case m2 (drop a t) of None \<Rightarrow> None | Some b \<Rightarrow> Some (a + b)))"

text \<open>
  A greedy \<^verbatim>\<open>[^;]+\<close> followed by a literal: the engine takes the longest run of characters
  other than the semicolon and gives characters back one at a time until the literal
  follows; at least one character stays.
\<close>

definition m_not_semi1_then :: "string \<Rightarrow> matcher" where
  "m_not_semi1_then lit t =
     (let n = length (takeWhile (\<lambda>c. c \<noteq> CHR '';'') t)
      in case find (\<lambda>k. starts_with lit (drop k t)) (rev [1..<Suc n]) of
           None \<Rightarrow> None
         | Some k \<Rightarrow> Some (k + length lit))"

text \<open>\<^verbatim>\<open>re.search\<close>: offset and length of the leftmost match.\<close>

fun re_search :: "matcher \<Rightarrow> string \<Rightarrow> (nat \<times> nat) option" where
  "re_search m [] = map_option (Pair 0) (m [])"
| "re_search m (c # cs) =
     (case m (c # cs) of
        Some n \<Rightarrow> Some (0, n)
      | None \<Rightarrow> map_option (\<lambda>(i, n). (Suc i, n)) (re_search m cs))"

text \<open>
  \<^verbatim>\<open>re.sub\<close>: every match, leftmost first and not overlapping, is replaced by \<open>repl\<close> of
  the matched text; what lies between matches is copied. An empty match (no pattern here
  has one) is replaced too and the scan moves one character on.
\<close>

function re_sub :: "matcher \<Rightarrow> (string \<Rightarrow> string) \<Rightarrow> string \<Rightarrow> string" where
  "re_sub m repl [] = (case m [] of None \<Rightarrow> [] | Some n \<Rightarrow> repl [])"
| "re_sub m repl (c # cs) =
     (case m (c # cs) of
        None \<Rightarrow> c # re_sub m repl cs
      | Some n \<Rightarrow>
          if n = 0 then repl [] @ c # re_sub m repl cs
          else repl (take n (c # cs)) @ re_sub m repl (drop n (c # cs)))"
  by pat_completeness auto
termination
  by (relation "measure (\<lambda>(m, repl, t). length t)") auto


section \<open>add_to_xcode_v2.py\<close>

subsection \<open>Identifiers and file data\<close>

text \<open>
  One value of the dictionary \<^verbatim>\<open>file_data\<close>, and the identifiers the script holds once
  lines 26 to 61 have run. It draws thirteen, in this order: the three new groups, then
  for each file its file reference and its build file, as the dictionary literal is
  evaluated.
\<close>

record file_info =
  path :: string
  group_uuid :: "string option"
  file_ref_uuid' :: string
  build_file_uuid' :: string

record ids =
  core_group_uuid :: string
  core_mcp_group_uuid :: string
  ui_prefs_mcp_group_uuid :: string
  file_data :: "(string \<times> file_info) list"

definition generate_ids :: "rng \<Rightarrow> ids" where
  "generate_ids rng =
     \<lparr>core_group_uuid = generate_uuid (rng 0),
      core_mcp_group_uuid = generate_uuid (rng 1),
      ui_prefs_mcp_group_uuid = generate_uuid (rng 2),
      file_data =
        [(''MCPServerConfig.swift'',
          \<lparr>path = ''Core/MCP/MCPServerConfig.swift'',
           group_uuid = Some (generate_uuid (rng 1)),
           file_ref_uuid' = generate_uuid (rng 3), build_file_uuid' = generate_uuid (rng 4)\<rparr>),
         (''MCPManager.swift'',
          \<lparr>path = ''Core/MCP/MCPManager.swift'',
           group_uuid = Some (generate_uuid (rng 1)),
           file_ref_uuid' = generate_uuid (rng 5), build_file_uuid' = generate_uuid (rng 6)\<rparr>),
         (''AddMCPAgentSheet.swift'',
          \<lparr>path = ''UI/Preferences/MCP/AddMCPAgentSheet.swift'',
           group_uuid = Some (generate_uuid (rng 2)),
           file_ref_uuid' = generate_uuid (rng 7), build_file_uuid' = generate_uuid (rng 8)\<rparr>),
         (''MCPSettingsView.swift'',
          \<lparr>path = ''UI/Preferences/MCP/MCPSettingsView.swift'',
           group_uuid = Some (generate_uuid (rng 2)),
           file_ref_uuid' = generate_uuid (rng 9), build_file_uuid' = generate_uuid (rng 10)\<rparr>),
         (''MCPAgentSelector.swift'',
          \<lparr>path = ''UI/Chat/MCPAgentSelector.swift'',
           group_uuid = None,
           file_ref_uuid' = generate_uuid (rng 11), build_file_uuid' = generate_uuid (rng 12)\<rparr>)]\<rparr>"

text \<open>\<^verbatim>\<open>file_data[name]['file_ref_uuid']\<close>; every name looked up is a key of the literal.\<close>

definition file_ref_of :: "(string \<times> file_info) list \<Rightarrow> string \<Rightarrow> string" where
  "file_ref_of fd name = (case map_of fd name of None \<Rightarrow> [] | Some d \<Rightarrow> file_ref_uuid' d)"

subsection \<open>Looking up the existing groups\<close>

text \<open>\<^verbatim>\<open>([A-F0-9]{24}) /\* NAME \*/ = \{\<close>, the pattern for Chat and for Preferences.\<close>

definition group_header :: "string \<Rightarrow> matcher" where
  "group_header name = m_seq m_hex24 (m_lit ('' /* '' @ name @ '' */ = {''))"

text \<open>\<^verbatim>\<open>([A-F0-9]{24}) /\* Warden \*/ = \{\n\s+isa = PBXGroup;\<close>.\<close>

definition warden_header :: matcher where
  "warden_header =
     m_seq m_hex24 (m_seq (m_lit ('' /* Warden */ = {'' @ [NL]))
       (m_seq m_space1 (m_lit ''isa = PBXGroup;'')))"

text \<open>\<^verbatim>\<open>re.search(pattern, content)\<close> and then \<^verbatim>\<open>.group(1)\<close>: the 24 characters the match starts with.\<close>

definition search_group1 :: "matcher \<Rightarrow> string \<Rightarrow> string option" where
  "search_group1 m content = map_option (\<lambda>(i, n). take 24 (drop i content)) (re_search m content)"

subsection \<open>Records\<close>

definition build_file_entry' :: "string \<times> file_info \<Rightarrow> string" where
  "build_file_entry' = (\<lambda>(filename, data).
     [TAB, TAB] @ build_file_uuid' data @ '' /* '' @ filename
     @ '' in Sources */ = {isa = PBXBuildFile; fileRef = '' @ file_ref_uuid' data
     @ '' /* '' @ filename @ '' */; };'' @ [NL])"

definition file_ref_entry' :: "string \<times> file_info \<Rightarrow> string" where
  \<open>file_ref_entry' = (\<lambda>(filename, data).
     [TAB, TAB] @ file_ref_uuid' data @ '' /* '' @ filename
     @ '' */ = {isa = PBXFileReference; lastKnownFileType = sourcecode.swift; path = ''
     @ filename @ ''; sourceTree = "<group>"; };'' @ [NL])\<close>

definition source_ref_entry' :: "string \<times> file_info \<Rightarrow> string" where
  "source_ref_entry' = (\<lambda>(filename, data).
     [TAB, TAB, TAB, TAB] @ build_file_uuid' data @ '' /* '' @ filename
     @ '' in Sources */,'' @ [NL])"

text \<open>One line of a \<^verbatim>\<open>children = (\<close> list.\<close>

definition child_line :: "string \<times> string \<Rightarrow> string" where
  "child_line = (\<lambda>(uuid, name). [TAB, TAB, TAB, TAB] @ uuid @ '' /* '' @ name @ '' */,'' @ [NL])"

text \<open>
  The three group templates of the script are the same text up to the identifier, the
  name, the children and the path; \<open>group_record\<close> is that text.
\<close>

definition group_record :: "string \<Rightarrow> string \<Rightarrow> (string \<times> string) list \<Rightarrow> string \<Rightarrow> string" where
  \<open>group_record uuid name children pth =
     [TAB, TAB] @ uuid @ '' /* '' @ name @ '' */ = {'' @ [NL]
     @ [TAB, TAB, TAB] @ ''isa = PBXGroup;'' @ [NL]
     @ [TAB, TAB, TAB] @ ''children = ('' @ [NL]
     @ concat (map child_line children)
     @ [TAB, TAB, TAB] @ '');'' @ [NL]
     @ [TAB, TAB, TAB] @ ''path = '' @ pth @ '';'' @ [NL]
     @ [TAB, TAB, TAB] @ ''sourceTree = "<group>";'' @ [NL]
     @ [TAB, TAB] @ ''};'' @ [NL]\<close>

definition core_group :: "ids \<Rightarrow> string" where
  "core_group i =
     group_record (core_group_uuid i) ''Core'' [(core_mcp_group_uuid i, ''MCP'')] ''Core''"

definition core_mcp_group :: "ids \<Rightarrow> string" where
  "core_mcp_group i =
     group_record (core_mcp_group_uuid i) ''MCP''
       [(file_ref_of (file_data i) ''MCPServerConfig.swift'', ''MCPServerConfig.swift''),
        (file_ref_of (file_data i) ''MCPManager.swift'', ''MCPManager.swift'')]
       ''MCP''"

definition ui_prefs_mcp_group :: "ids \<Rightarrow> string" where
  "ui_prefs_mcp_group i =
     group_record (ui_prefs_mcp_group_uuid i) ''MCP''
       [(file_ref_of (file_data i) ''AddMCPAgentSheet.swift'', ''AddMCPAgentSheet.swift''),
        (file_ref_of (file_data i) ''MCPSettingsView.swift'', ''MCPSettingsView.swift'')]
       ''MCP''"

subsection \<open>The seven steps on the buffer\<close>

text \<open>Steps 1 to 3. No offset is compared with \<open>-1\<close> here.\<close>

definition add_build_files :: "ids \<Rightarrow> string \<Rightarrow> string" where
  "add_build_files i content =
     (let build_file_section_start = str_find content ''/* Begin PBXBuildFile section */'' 0;
          build_file_section_end =
            str_find content ''/* End PBXBuildFile section */'' build_file_section_start
      in splice content build_file_section_end (concat (map build_file_entry' (file_data i))))"

definition add_file_refs :: "ids \<Rightarrow> string \<Rightarrow> string" where
  "add_file_refs i content =
     (let file_ref_section_start = str_find content ''/* Begin PBXFileReference section */'' 0;
          file_ref_section_end =
            str_find content ''/* End PBXFileReference section */'' file_ref_section_start
      in splice content file_ref_section_end (concat (map file_ref_entry' (file_data i))))"

definition add_sources :: "ids \<Rightarrow> string \<Rightarrow> string" where
  "add_sources i content =
     (let sources_build_phase_start =
            str_find content ''/* Begin PBXSourcesBuildPhase section */'' 0;
          files_array_start = str_find content ''files = ('' sources_build_phase_start;
          files_array_end = str_find content '');'' files_array_start
      in splice content files_array_end (concat (map source_ref_entry' (file_data i))))"

text \<open>Step 4: the three new groups go in front of the end of the group section.\<close>

definition add_groups :: "ids \<Rightarrow> string \<Rightarrow> string" where
  "add_groups i content =
     (let group_section_start = str_find content ''/* Begin PBXGroup section */'' 0;
          group_section_end = str_find content ''/* End PBXGroup section */'' group_section_start
      in splice content group_section_end
           (core_group i @ core_mcp_group i @ ui_prefs_mcp_group i))"

text \<open>
  Steps 5 to 7 share one pattern,
  \<^verbatim>\<open>(UUID /\* NAME \*/ = \{\n\s+isa = PBXGroup;\n\s+children = \()\<close>, and one replacement,
  the match followed by a new line of the children list. The identifier in the pattern
  came out of \<^verbatim>\<open>[A-F0-9]{24}\<close>, so it stands for itself.
\<close>

definition children_open :: "string \<Rightarrow> string \<Rightarrow> matcher" where
  "children_open uuid name =
     m_seq (m_lit (uuid @ '' /* '' @ name @ '' */ = {'' @ [NL]))
       (m_seq m_space1
         (m_seq (m_lit (''isa = PBXGroup;'' @ [NL]))
           (m_seq m_space1 (m_lit ''children = (''))))"

definition add_child :: "string \<Rightarrow> string \<Rightarrow> string \<Rightarrow> string \<Rightarrow> string \<Rightarrow> string" where
  "add_child group_id group_name child_id child_name content =
     re_sub (children_open group_id group_name)
       (\<lambda>g. g @ [NL, TAB, TAB, TAB, TAB] @ child_id @ '' /* '' @ child_name @ '' */,'')
       content"

text \<open>
  Everything between the backup and the write: the three look-ups, each ending the run
  with \<^verbatim>\<open>exit(1)\<close> when it finds nothing, and the seven steps.
\<close>

definition patch_content_v2 :: "ids \<Rightarrow> string \<Rightarrow> exit_reason + string" where
  "patch_content_v2 i content =
     (case search_group1 (group_header ''Chat'') content of
        None \<Rightarrow> Inl (NotFound ''Chat group UUID'')
      | Some chat_group_uuid \<Rightarrow>
     (case search_group1 (group_header ''Preferences'') content of
        None \<Rightarrow> Inl (NotFound ''Preferences group UUID'')
      | Some prefs_group_uuid \<Rightarrow>
     (case search_group1 warden_header content of
        None \<Rightarrow> Inl (NotFound ''Warden group UUID'')
      | Some warden_group_uuid \<Rightarrow>
          Inr (add_child chat_group_uuid ''Chat''
                 (file_ref_of (file_data i) ''MCPAgentSelector.swift'') ''MCPAgentSelector.swift''
              (add_child prefs_group_uuid ''Preferences'' (ui_prefs_mcp_group_uuid i) ''MCP''
              (add_child warden_group_uuid ''Warden'' (core_group_uuid i) ''Core''
              (add_groups i (add_sources i (add_file_refs i
                (add_build_files i content))))))))))"

text \<open>The script from its first line to its last.\<close>

definition add_to_xcode_v2 :: "rng \<Rightarrow> world \<Rightarrow> path \<Rightarrow> outcome \<times> world" where
  "add_to_xcode_v2 rng w pbxproj =
     (case read_file w pbxproj of
        (Inl err, w1) \<Rightarrow> (Uncaught err, w1)
      | (Inr content, w1) \<Rightarrow>
          (case shutil_copy2 w1 pbxproj (pbxproj @ ''.backup2'') of
             (Inl err, w2) \<Rightarrow> (Uncaught err, w2)
           | (Inr _, w2) \<Rightarrow>
               (case patch_content_v2 (generate_ids rng) content of
                  Inl r \<Rightarrow> (Exit1 r, w2)
                | Inr content' \<Rightarrow>
                    (case write_file w2 pbxproj content' of
                       (Inl err, w3) \<Rightarrow> (Uncaught err, w3)
                     | (Inr _, w3) \<Rightarrow> (Completed, w3)))))"


section \<open>fix_file_paths.py\<close>

definition file_fixes :: "(string \<times> string) list" where
  "file_fixes =
     [(''MCPServerConfig.swift'', ''Core/MCP/MCPServerConfig.swift''),
      (''MCPManager.swift'', ''Core/MCP/MCPManager.swift''),
      (''AddMCPAgentSheet.swift'', ''UI/Preferences/MCP/AddMCPAgentSheet.swift''),
      (''MCPSettingsView.swift'', ''UI/Preferences/MCP/MCPSettingsView.swift''),
      (''MCPAgentSelector.swift'', ''UI/Chat/MCPAgentSelector.swift'')]"

text \<open>
  \<^verbatim>\<open>(\/\* NAME \*/ = {isa = PBXFileReference;[^;]+path = )NAME\<close>, the name escaped so that
  it stands for itself.
\<close>

definition file_ref_pattern :: "string \<Rightarrow> matcher" where
  "file_ref_pattern name =
     m_seq (m_lit (''/* '' @ name @ '' */ = {isa = PBXFileReference;''))
       (m_not_semi1_then (''path = '' @ name))"

text \<open>
  The replacement \<^verbatim>\<open>\1CORRECT_PATH\<close>: group 1 is the match without the name it ends in.
  The corrected paths of \<open>file_fixes\<close> start with a letter and hold no backslash, so the
  template takes them as they are.
\<close>

definition fix_one :: "string \<times> string \<Rightarrow> string \<Rightarrow> string" where
  "fix_one fx content =
     (case fx of (name, correct_path) \<Rightarrow>
        re_sub (file_ref_pattern name)
          (\<lambda>g. take (length g - length name) g @ correct_path) content)"

text \<open>The loop over \<^verbatim>\<open>file_fixes.items()\<close>.\<close>

definition fix_content :: "(string \<times> string) list \<Rightarrow> string \<Rightarrow> string" where
  "fix_content fixes content = fold fix_one fixes content"

definition fix_file_paths :: "world \<Rightarrow> path \<Rightarrow> outcome \<times> world" where
  "fix_file_paths w pbxproj =
     (case read_file w pbxproj of
        (Inl err, w1) \<Rightarrow> (Uncaught err, w1)
      | (Inr content, w1) \<Rightarrow>
          (case write_file w1 pbxproj (fix_content file_fixes content) of
             (Inl err, w2) \<Rightarrow> (Uncaught err, w2)
           | (Inr _, w2) \<Rightarrow> (Completed, w2)))"


section \<open>Observers and sample inputs\<close>

text \<open>The identifiers one run of each script allocates, in the order of allocation.\<close>

definition allocated :: "file_entry list \<Rightarrow> string list" where
  "allocated es = concat (map (\<lambda>e. [file_ref_uuid e, build_file_uuid e]) es)"

definition allocated_v2 :: "ids \<Rightarrow> string list" where
  "allocated_v2 i =
     [core_group_uuid i, core_mcp_group_uuid i, ui_prefs_mcp_group_uuid i]
     @ concat (map (\<lambda>(name, d). [file_ref_uuid' d, build_file_uuid' d]) (file_data i))"

text \<open>
  The contents of the files while a trace of events runs: the state before the first
  event and after each one, as another process reading the files could find them.
\<close>

fun states_during :: "event list \<Rightarrow> (path \<rightharpoonup> string) \<Rightarrow> (path \<rightharpoonup> string) list" where
  "states_during [] fs = [fs]"
| "states_during (e # es) fs = fs # states_during es (apply_event e fs)"

text \<open>What one path holds in each of these states.\<close>

definition contents_during :: "event list \<Rightarrow> (path \<rightharpoonup> string) \<Rightarrow> path \<Rightarrow> string option list" where
  "contents_during es fs p = map (\<lambda>s. s p) (states_during es fs)"

text \<open>
  Draws for the examples: version-4 values that differ in the digits \<open>generate_uuid\<close>
  keeps, and a source that answers the same value every time.
\<close>

definition rng0 :: rng where
  "rng0 k = 0x9f1c2ab34d5e4f60a1b2c3d4e5f60718 + of_nat k * 0x100000000"

definition rng_same :: rng where
  "rng_same k = 0x9f1c2ab34d5e4f60a1b2c3d4e5f60718"

definition entry0 :: file_entry where
  "entry0 =
     \<lparr>filepath = ''/src/A.swift'', filename = ''A.swift'',
      file_ref_uuid = ''9F1C2AB34D5E4F60A1B2C3D4'',
      build_file_uuid = ''9F1C2AB34D5E4F60A1B2C3D5''\<rparr>"

text \<open>A small manifest with every marker \<open>add_files_to_pbxproj\<close> looks for.\<close>

definition manifest_ok :: string where
  "manifest_ok =
     ''/* Begin PBXBuildFile section */'' @ [NL]
     @ ''/* End PBXBuildFile section */'' @ [NL]
     @ ''/* Begin PBXFileReference section */'' @ [NL]
     @ ''/* End PBXFileReference section */'' @ [NL]
     @ ''/* Begin PBXSourcesBuildPhase section */'' @ [NL]
     @ [TAB, TAB, TAB] @ ''files = ('' @ [NL]
     @ [TAB, TAB, TAB] @ '');'' @ [NL]
     @ ''/* End PBXSourcesBuildPhase section */'' @ [NL]"

text \<open>The same manifest without the line that ends the build-file section.\<close>

definition manifest_no_end :: string where
  "manifest_no_end =
     ''/* Begin PBXBuildFile section */'' @ [NL]
     @ ''/* Begin PBXFileReference section */'' @ [NL]
     @ ''/* End PBXFileReference section */'' @ [NL]
     @ ''/* Begin PBXSourcesBuildPhase section */'' @ [NL]
     @ [TAB, TAB, TAB] @ ''files = ('' @ [NL]
     @ [TAB, TAB, TAB] @ '');'' @ [NL]
     @ ''/* End PBXSourcesBuildPhase section */'' @ [NL]"

text \<open>A group section with the three groups the second script looks up, and a group Core.\<close>

definition manifest_groups :: string where
  "manifest_groups =
     [TAB, TAB] @ ''222222222222222222222222 /* Chat */ = {'' @ [NL]
     @ [TAB, TAB, TAB] @ ''isa = PBXGroup;'' @ [NL]
     @ [TAB, TAB, TAB] @ ''children = ('' @ [NL]
     @ [TAB, TAB] @ ''333333333333333333333333 /* Preferences */ = {'' @ [NL]
     @ [TAB, TAB, TAB] @ ''isa = PBXGroup;'' @ [NL]
     @ [TAB, TAB, TAB] @ ''children = ('' @ [NL]
     @ [TAB, TAB] @ ''111111111111111111111111 /* Warden */ = {'' @ [NL]
     @ [TAB, TAB, TAB] @ ''isa = PBXGroup;'' @ [NL]
     @ [TAB, TAB, TAB] @ ''children = ('' @ [NL]
     @ [TAB, TAB] @ ''444444444444444444444444 /* Core */ = {'' @ [NL]"

text \<open>A world with the manifest at \<^verbatim>\<open>/proj\<close> and one source file.\<close>

definition sample_world :: "string \<Rightarrow> world" where
  "sample_world m =
     \<lparr>files = [''/proj'' \<mapsto> m, ''/src/A.swift'' \<mapsto> ''import X''], trace = [],
      write_error = Map.empty\<rparr>"

text \<open>A world that holds the manifest and nothing else.\<close>

definition manifest_only :: "string \<Rightarrow> world" where
  "manifest_only m = \<lparr>files = [''/proj'' \<mapsto> m], trace = [], write_error = Map.empty\<rparr>"

text \<open>The same worlds on a storage that takes no character written to the manifest path.\<close>

definition no_space :: "world \<Rightarrow> world" where
  "no_space w = w\<lparr>write_error := [''/proj'' \<mapsto> 0]\<rparr>"

text \<open>The small manifest with the line ends of a Windows editor.\<close>

definition manifest_crlf :: string where
  "manifest_crlf =
     ''/* Begin PBXBuildFile section */'' @ [CR, NL]
     @ ''/* End PBXBuildFile section */'' @ [CR, NL]
     @ ''/* Begin PBXFileReference section */'' @ [CR, NL]
     @ ''/* End PBXFileReference section */'' @ [CR, NL]
     @ ''/* Begin PBXSourcesBuildPhase section */'' @ [CR, NL]
     @ [TAB, TAB, TAB] @ ''files = ('' @ [CR, NL]
     @ [TAB, TAB, TAB] @ '');'' @ [CR, NL]
     @ ''/* End PBXSourcesBuildPhase section */'' @ [CR, NL]"

text \<open>
  A file reference as both adding scripts write it, and a text in which two \<^verbatim>\<open>path\<close>
  fields follow one \<^verbatim>\<open>isa\<close> field with no semicolon between them.
\<close>

definition written_file_ref :: string where
  "written_file_ref =
     file_ref_entry' (''MCPManager.swift'',
       \<lparr>path = ''Core/MCP/MCPManager.swift'', group_uuid = None,
        file_ref_uuid' = ''9F1C2AB34D5E4F60A1B2C3D9'',
        build_file_uuid' = ''9F1C2AB34D5E4F60A1B2C3DA''\<rparr>)"

definition bare_file_ref :: string where
  "bare_file_ref =
     ''/* MCPManager.swift */ = {isa = PBXFileReference; path = MCPManager.swift; };''"

definition two_paths :: string where
  "two_paths =
     ''/* MCPManager.swift */ = {isa = PBXFileReference; path = MCPManager.swift path = MCPManager.swift''"


section \<open>Properties\<close>

subsection \<open>Splicing and substitution only add text\<close>

lemma slice_to_from: "slice_to c e @ slice_from c e = c"
  by (simp add: slice_to_def slice_from_def)

lemma subseq_splice: "subseq c (splice c e ins)"
proof -
  have "subseq (slice_to c e @ [] @ slice_from c e) (slice_to c e @ ins @ slice_from c e)"
    by (intro list_emb_append_mono subseq_order.order_refl) simp
  then show ?thesis
    by (simp add: splice_def slice_to_from)
qed

lemma subseq_re_sub:
  "(\<And>g. subseq g (repl g)) \<Longrightarrow> subseq t (re_sub m repl t)"
proof (induction m repl t rule: re_sub.induct)
  case (1 m repl)
  then show ?case by simp
next
  case (2 m repl c cs)
  show ?case
  proof (cases "m (c # cs)")
    case None
    with 2 show ?thesis by simp
  next
    case (Some n)
    show ?thesis
    proof (cases "n = 0")
      case True
      with Some 2 have "subseq cs (re_sub m repl cs)" by simp
      then have "subseq ([] @ c # cs) (repl [] @ c # re_sub m repl cs)"
        by (intro list_emb_append_mono) auto
      with Some True show ?thesis by simp
    next
      case False
      with Some 2 have ih: "subseq (drop n (c # cs)) (re_sub m repl (drop n (c # cs)))" by simp
      have e: "re_sub m repl (c # cs) = repl (take n (c # cs)) @ re_sub m repl (drop n (c # cs))"
        using Some False by simp
      have "subseq (take n (c # cs) @ drop n (c # cs))
                   (repl (take n (c # cs)) @ re_sub m repl (drop n (c # cs)))"
        using list_emb_append_mono [OF "2.prems" ih] .
      then show ?thesis unfolding e by (simp only: append_take_drop_id)
    qed
  qed
qed

lemma subseq_add_child: "subseq c (add_child g gn ch chn c)"
  unfolding add_child_def by (rule subseq_re_sub) (rule prefix_imp_subseq, simp)

lemma subseq_patch_content:
  assumes "patch_content es content = Inr content'"
  shows "subseq content content'"
proof -
  from assms obtain c1 c2 where
    1: "add_build_file_entries es content = Inr c1" and
    2: "add_file_ref_entries es c1 = Inr c2" and
    3: "add_source_ref_entries es c2 = Inr content'"
    by (auto simp: patch_content_def split: sum.splits)
  from 1 have "subseq content c1"
    by (auto simp: add_build_file_entries_def Let_def subseq_splice split: if_splits)
  moreover from 2 have "subseq c1 c2"
    by (auto simp: add_file_ref_entries_def Let_def subseq_splice split: if_splits)
  moreover from 3 have "subseq c2 content'"
    by (auto simp: add_source_ref_entries_def Let_def subseq_splice split: if_splits)
  ultimately show ?thesis
    by (meson subseq_order.order_trans)
qed

lemma subseq_steps:
  "subseq c (add_build_files i c)" "subseq c (add_file_refs i c)"
  "subseq c (add_sources i c)" "subseq c (add_groups i c)"
  by (simp_all add: add_build_files_def add_file_refs_def add_sources_def add_groups_def
        Let_def subseq_splice)

lemma subseq_patch_content_v2:
  assumes "patch_content_v2 i content = Inr content'"
  shows "subseq content content'"
proof -
  obtain a b c where c': "content' = add_child a ''Chat''
                 (file_ref_of (file_data i) ''MCPAgentSelector.swift'') ''MCPAgentSelector.swift''
              (add_child b ''Preferences'' (ui_prefs_mcp_group_uuid i) ''MCP''
              (add_child c ''Warden'' (core_group_uuid i) ''Core''
              (add_groups i (add_sources i (add_file_refs i
                (add_build_files i content))))))"
    using assms by (auto simp: patch_content_v2_def split: option.splits)
  have "subseq content (add_groups i (add_sources i (add_file_refs i
                (add_build_files i content))))"
    by (meson subseq_steps subseq_order.order_trans)
  then show ?thesis unfolding c'
    by (meson subseq_add_child subseq_order.order_trans)
qed

subsection \<open>The runs, case by case\<close>

lemma suffixed_neq: "p @ x # xs \<noteq> p"
  by (metis append_self_conv list.distinct(1))

lemma accepted_perform [simp]: "accepted (perform e w) = accepted w"
  by (intro ext) (simp add: accepted_def perform_def)

lemma accepted_trace_update [simp]: "accepted (w\<lparr>trace := t\<rparr>) = accepted w"
  by (intro ext) (simp add: accepted_def)

lemma accepted_files_update [simp]: "accepted (w\<lparr>files := f\<rparr>) = accepted w"
  by (intro ext) (simp add: accepted_def)


declare universal_newlines.simps [simp del]

lemma missing_files_eq:
  "missing_files w fps =
     (filter (\<lambda>q. files w q = None) fps, w\<lparr>trace := trace w @ map Exists fps\<rparr>)"
proof (induction fps arbitrary: w)
  case Nil
  then show ?case by simp
next
  case (Cons fp fps)
  show ?case
    by (simp add: Cons.IH os_path_exists_def perform_def)
qed

lemma main_eq:
  "main rng w p fs =
     (if filter (\<lambda>q. files w q = None) fs \<noteq> []
      then (Exit1 (MissingSourceFile (filter (\<lambda>q. files w q = None) fs)),
            w\<lparr>trace := trace w @ map Exists fs\<rparr>)
      else case files w p of
        None \<Rightarrow> (Uncaught (FileNotFoundError p), w\<lparr>trace := trace w @ map Exists fs\<rparr>)
      | Some c \<Rightarrow>
          if accepted w (p @ ''.backup'') c \<noteq> c
          then (Uncaught (OSError (p @ ''.backup'')),
                w\<lparr>files := (files w)(p @ ''.backup'' \<mapsto> accepted w (p @ ''.backup'') c),
                  trace := trace w @ map Exists fs
                    @ [Truncate (p @ ''.backup''),
                       WriteData (p @ ''.backup'') (accepted w (p @ ''.backup'') c)]\<rparr>)
          else
          (case patch_content (file_entries rng 0 fs) (universal_newlines c) of
             Inl e \<Rightarrow>
               if accepted w p c = c
               then (Exit1 (Restored e),
                     w\<lparr>files := (files w)(p @ ''.backup'' \<mapsto> c, p \<mapsto> c),
                       trace := trace w @ map Exists fs
                         @ [Copy p (p @ ''.backup''), ReadAll p, Copy (p @ ''.backup'') p]\<rparr>)
               else (Uncaught (OSError p),
                     w\<lparr>files := (files w)(p @ ''.backup'' \<mapsto> c, p \<mapsto> accepted w p c),
                       trace := trace w @ map Exists fs
                         @ [Copy p (p @ ''.backup''), ReadAll p, Truncate p,
                            WriteData p (accepted w p c)]\<rparr>)
           | Inr c' \<Rightarrow>
               (if accepted w p c' = c' then Completed else Uncaught (OSError p),
                w\<lparr>files := (files w)(p @ ''.backup'' \<mapsto> c, p \<mapsto> accepted w p c'),
                  trace := trace w @ map Exists fs
                    @ [Copy p (p @ ''.backup''), ReadAll p, Truncate p,
                       WriteData p (accepted w p c')]\<rparr>)))"
  by (auto simp: main_def missing_files_eq shutil_copy2_def add_files_to_pbxproj_def
        read_file_def perform_def suffixed_neq write_file_def Let_def
      split: option.splits sum.splits)

lemma add_to_xcode_v2_eq:
  "add_to_xcode_v2 rng w p =
     (case files w p of
        None \<Rightarrow> (Uncaught (FileNotFoundError p), w)
      | Some c \<Rightarrow>
          if accepted w (p @ ''.backup2'') c \<noteq> c
          then (Uncaught (OSError (p @ ''.backup2'')),
                w\<lparr>files := (files w)(p @ ''.backup2'' \<mapsto> accepted w (p @ ''.backup2'') c),
                  trace := trace w
                    @ [ReadAll p, Truncate (p @ ''.backup2''),
                       WriteData (p @ ''.backup2'') (accepted w (p @ ''.backup2'') c)]\<rparr>)
          else
          (case patch_content_v2 (generate_ids rng) (universal_newlines c) of
             Inl r \<Rightarrow>
               (Exit1 r,
                w\<lparr>files := (files w)(p @ ''.backup2'' \<mapsto> c),
                  trace := trace w @ [ReadAll p, Copy p (p @ ''.backup2'')]\<rparr>)
           | Inr c' \<Rightarrow>
               (if accepted w p c' = c' then Completed else Uncaught (OSError p),
                w\<lparr>files := (files w)(p @ ''.backup2'' \<mapsto> c, p \<mapsto> accepted w p c'),
                  trace := trace w
                    @ [ReadAll p, Copy p (p @ ''.backup2''), Truncate p,
                       WriteData p (accepted w p c')]\<rparr>)))"
  by (auto simp: add_to_xcode_v2_def shutil_copy2_def
        read_file_def perform_def suffixed_neq write_file_def Let_def
      split: option.splits sum.splits)

lemma main_completes:
  assumes "\<forall>q\<in>set fs. files w q \<noteq> None" and "files w p = Some c"
    and "patch_content (file_entries rng 0 fs) (universal_newlines c) = Inr c'"
    and "accepted w (p @ ''.backup'') c = c" and "accepted w p c' = c'"
  shows "main rng w p fs =
           (Completed,
            w\<lparr>files := (files w)(p @ ''.backup'' \<mapsto> c, p \<mapsto> c'),
              trace := trace w @ map Exists fs
                @ [Copy p (p @ ''.backup''), ReadAll p, Truncate p, WriteData p c']\<rparr>)"
proof -
  from assms(1) have "filter (\<lambda>q. files w q = None) fs = []"
    by (simp add: filter_empty_conv)
  with assms(2-) show ?thesis
    by (simp add: main_eq)
qed

lemma v2_completes:
  assumes "files w p = Some c"
    and "patch_content_v2 (generate_ids rng) (universal_newlines c) = Inr c'"
    and "accepted w (p @ ''.backup2'') c = c" and "accepted w p c' = c'"
  shows "add_to_xcode_v2 rng w p =
           (Completed,
            w\<lparr>files := (files w)(p @ ''.backup2'' \<mapsto> c, p \<mapsto> c'),
              trace := trace w
                @ [ReadAll p, Copy p (p @ ''.backup2''), Truncate p, WriteData p c']\<rparr>)"
  using assms by (simp add: add_to_xcode_v2_eq)

subsection \<open>The sample inputs, evaluated\<close>

lemma generate_uuid_rng0:
  "generate_uuid (rng0 0) = ''9F1C2AB34D5E4F60A1B2C3D4''"
  "generate_uuid (rng0 (Suc 0)) = ''9F1C2AB34D5E4F60A1B2C3D5''"
  "generate_uuid (rng0 2) = ''9F1C2AB34D5E4F60A1B2C3D6''"
  by (simp_all add: rng0_def generate_uuid_def hex32_def hex_digit_def upper_char_def
        upt_conv_Cons)

lemma generate_uuid_rng_same: "generate_uuid (rng_same k) = ''9F1C2AB34D5E4F60A1B2C3D4''"
  by (simp add: rng_same_def generate_uuid_def hex32_def hex_digit_def upper_char_def
        upt_conv_Cons)

lemma sample_entries: "file_entries rng0 0 [''/src/A.swift''] = [entry0]"
  by (simp add: entry0_def basename_def generate_uuid_rng0)

lemma sample_patch_ok:
  "case patch_content [entry0] manifest_ok of
     Inl e \<Rightarrow> False
   | Inr c' \<Rightarrow> list_all (\<lambda>x. x \<noteq> CR) c'"
  by code_simp

lemma sample_patch_no_end:
  "case patch_content [entry0] manifest_no_end of
     Inl e \<Rightarrow> False
   | Inr c' \<Rightarrow> c' \<noteq> manifest_no_end"
  by code_simp

lemma sample_newlines:
  "universal_newlines manifest_ok = manifest_ok"
  "universal_newlines manifest_no_end = manifest_no_end"
  "universal_newlines manifest_crlf = manifest_ok"
  "universal_newlines manifest_groups = manifest_groups"
  by code_simp+

lemma sample_searches:
  "search_group1 (group_header ''Chat'') manifest_groups = Some ''222222222222222222222222''"
  "search_group1 (group_header ''Preferences'') manifest_groups = Some ''333333333333333333333333''"
  "search_group1 warden_header manifest_groups = Some ''111111111111111111111111''"
  "search_group1 (group_header ''Core'') manifest_groups = Some ''444444444444444444444444''"
  by code_simp+

lemma half_manifest_fails:
  "patch_content [entry0] ''/* Begin PBXBuildFile section */'' =
     Inl (CouldNotFind ''PBXFileReference section'')"
  by code_simp

lemma no_chat_group: "search_group1 (group_header ''Chat'') ''/* Begin PBXGroup section */'' = None"
  by code_simp

lemma sample_patched:
  "\<exists>c'. patch_content [entry0] manifest_ok = Inr c' \<and> CR \<notin> set c' \<and> c' \<noteq> []"
proof -
  obtain c' where c': "patch_content [entry0] manifest_ok = Inr c'" and "list_all (\<lambda>x. x \<noteq> CR) c'"
    using sample_patch_ok by (cases "patch_content [entry0] manifest_ok") auto
  then have "CR \<notin> set c'"
    by (auto simp: list_all_iff)
  moreover have "subseq manifest_ok c'"
    using c' by (rule subseq_patch_content)
  then have "c' \<noteq> []"
    by (auto simp: manifest_ok_def)
  ultimately show ?thesis
    using c' by blast
qed

lemma sample_run:
  assumes "m = manifest_ok \<or> m = manifest_crlf"
  shows "\<exists>c'. patch_content [entry0] manifest_ok = Inr c' \<and> CR \<notin> set c' \<and>
     main rng0 (sample_world m) ''/proj'' [''/src/A.swift''] =
       (Completed,
        \<lparr>files = [''/proj'' \<mapsto> m, ''/src/A.swift'' \<mapsto> ''import X'',
                  ''/proj.backup'' \<mapsto> m, ''/proj'' \<mapsto> c'],
         trace = [Exists ''/src/A.swift'', Copy ''/proj'' ''/proj.backup'', ReadAll ''/proj'',
                  Truncate ''/proj'', WriteData ''/proj'' c'],
         write_error = Map.empty\<rparr>)"
proof -
  obtain c' where c': "patch_content [entry0] manifest_ok = Inr c'" and cr: "CR \<notin> set c'"
    using sample_patched by blast
  from assms have n: "universal_newlines m = manifest_ok"
    by (auto simp: sample_newlines)
  have e: "patch_content (file_entries rng0 0 [''/src/A.swift'']) (universal_newlines m) = Inr c'"
    by (simp only: sample_entries n c')
  have "main rng0 (sample_world m) ''/proj'' [''/src/A.swift''] =
       (Completed,
        (sample_world m)\<lparr>files := (files (sample_world m))(''/proj'' @ ''.backup'' \<mapsto> m, ''/proj'' \<mapsto> c'),
         trace := trace (sample_world m) @ map Exists [''/src/A.swift'']
               @ [Copy ''/proj'' (''/proj'' @ ''.backup''), ReadAll ''/proj'', Truncate ''/proj'',
                  WriteData ''/proj'' c']\<rparr>)"
    by (rule main_completes [OF _ _ e]) (simp_all add: sample_world_def accepted_def)
  with c' cr show ?thesis
    by (simp add: sample_world_def)
qed

lemma sample_patch_v2:
  "patch_content_v2 i manifest_groups =
     Inr (add_child ''222222222222222222222222'' ''Chat''
            (file_ref_of (file_data i) ''MCPAgentSelector.swift'') ''MCPAgentSelector.swift''
         (add_child ''333333333333333333333333'' ''Preferences'' (ui_prefs_mcp_group_uuid i) ''MCP''
         (add_child ''111111111111111111111111'' ''Warden'' (core_group_uuid i) ''Core''
         (add_groups i (add_sources i (add_file_refs i (add_build_files i manifest_groups)))))))"
  by (simp add: patch_content_v2_def sample_searches)

lemma sample_run_v2:
  "\<exists>c'. patch_content_v2 (generate_ids rng0) manifest_groups = Inr c' \<and>
     add_to_xcode_v2 rng0 (manifest_only manifest_groups) ''/proj'' =
       (Completed,
        \<lparr>files = [''/proj'' \<mapsto> manifest_groups, ''/proj.backup2'' \<mapsto> manifest_groups,
                  ''/proj'' \<mapsto> c'],
         trace = [ReadAll ''/proj'', Copy ''/proj'' ''/proj.backup2'',
                  Truncate ''/proj'', WriteData ''/proj'' c'],
         write_error = Map.empty\<rparr>)"
proof -
  obtain c' where c': "patch_content_v2 (generate_ids rng0) manifest_groups = Inr c'"
    by (simp add: sample_patch_v2)
  then have e: "patch_content_v2 (generate_ids rng0) (universal_newlines manifest_groups) = Inr c'"
    by (simp only: sample_newlines)
  have "add_to_xcode_v2 rng0 (manifest_only manifest_groups) ''/proj'' =
           (Completed,
            (manifest_only manifest_groups)\<lparr>files := (files (manifest_only manifest_groups))
                (''/proj'' @ ''.backup2'' \<mapsto> manifest_groups, ''/proj'' \<mapsto> c'),
             trace := trace (manifest_only manifest_groups)
               @ [ReadAll ''/proj'', Copy ''/proj'' (''/proj'' @ ''.backup2''), Truncate ''/proj'',
                  WriteData ''/proj'' c']\<rparr>)"
    by (rule v2_completes [OF _ e]) (simp_all add: manifest_only_def accepted_def)
  with c' show ?thesis
    by (simp add: manifest_only_def)
qed


lemma marker_newlines:
  "universal_newlines ''/* Begin PBXBuildFile section */'' = ''/* Begin PBXBuildFile section */''"
  "universal_newlines ''/* Begin PBXGroup section */'' = ''/* Begin PBXGroup section */''"
  by code_simp+


lemma sample_patched_v2:
  "\<exists>c'. patch_content_v2 (generate_ids rng0) manifest_groups = Inr c' \<and> c' \<noteq> []"
proof -
  obtain c' where c': "patch_content_v2 (generate_ids rng0) manifest_groups = Inr c'"
    by (simp add: sample_patch_v2)
  then have "subseq manifest_groups c'"
    by (rule subseq_patch_content_v2)
  then have "c' \<noteq> []"
    by (auto simp: manifest_groups_def)
  with c' show ?thesis
    by blast
qed

subsection \<open>The claims\<close>




text \<open>
  C3, as the specification states it, fails: neither script catches an exception. When
  the storage refuses the write of the patched text, the manifest has already been
  truncated; the first script never reaches the lines that copy the backup back, and the
  second has no such lines. Both sample runs end with the error and an empty manifest.
\<close>

theorem rollback_counterexample:
  "files (no_space (sample_world manifest_ok)) ''/proj'' = Some manifest_ok
   \<and> manifest_ok \<noteq> []
   \<and> fst (main rng0 (no_space (sample_world manifest_ok)) ''/proj'' [''/src/A.swift''])
       = Uncaught (OSError ''/proj'')
   \<and> files (snd (main rng0 (no_space (sample_world manifest_ok)) ''/proj'' [''/src/A.swift'']))
         ''/proj'' = Some []
   \<and> files (no_space (manifest_only manifest_groups)) ''/proj'' = Some manifest_groups
   \<and> manifest_groups \<noteq> []
   \<and> fst (add_to_xcode_v2 rng0 (no_space (manifest_only manifest_groups)) ''/proj'')
       = Uncaught (OSError ''/proj'')
   \<and> files (snd (add_to_xcode_v2 rng0 (no_space (manifest_only manifest_groups)) ''/proj''))
         ''/proj'' = Some []"
proof -
  obtain c' where "patch_content [entry0] manifest_ok = Inr c'" and n: "c' \<noteq> []"
    using sample_patched by blast
  then have e: "patch_content (file_entries rng0 0 [''/src/A.swift''])
                  (universal_newlines manifest_ok) = Inr c'"
    by (simp only: sample_entries sample_newlines)
  obtain d' where "patch_content_v2 (generate_ids rng0) manifest_groups = Inr d'"
      and m: "d' \<noteq> []"
    using sample_patched_v2 by blast
  then have e2: "patch_content_v2 (generate_ids rng0) (universal_newlines manifest_groups) = Inr d'"
    by (simp only: sample_newlines)
  have 1: "main rng0 (no_space (sample_world manifest_ok)) ''/proj'' [''/src/A.swift''] =
      (Uncaught (OSError ''/proj''),
       (no_space (sample_world manifest_ok))
         \<lparr>files := (files (no_space (sample_world manifest_ok)))
              (''/proj.backup'' \<mapsto> manifest_ok, ''/proj'' \<mapsto> []),
          trace := [Exists ''/src/A.swift'', Copy ''/proj'' ''/proj.backup'', ReadAll ''/proj'',
                    Truncate ''/proj'', WriteData ''/proj'' []]\<rparr>)"
    using n by (simp add: main_eq e no_space_def sample_world_def accepted_def
                      del: file_entries.simps)
  have 2: "add_to_xcode_v2 rng0 (no_space (manifest_only manifest_groups)) ''/proj'' =
      (Uncaught (OSError ''/proj''),
       (no_space (manifest_only manifest_groups))
         \<lparr>files := (files (no_space (manifest_only manifest_groups)))
              (''/proj.backup2'' \<mapsto> manifest_groups, ''/proj'' \<mapsto> []),
          trace := [ReadAll ''/proj'', Copy ''/proj'' ''/proj.backup2'',
                    Truncate ''/proj'', WriteData ''/proj'' []]\<rparr>)"
    using m by (simp add: add_to_xcode_v2_eq e2 no_space_def manifest_only_def accepted_def)
  have 3: "manifest_ok \<noteq> []" "manifest_groups \<noteq> []"
    by (simp_all add: manifest_ok_def manifest_groups_def)
  show ?thesis
    unfolding 1 2 using 3 by (simp add: no_space_def sample_world_def manifest_only_def)
qed

text \<open>
  C3, amended. A run of either adding script that ends otherwise than by committing or by
  an \<^verbatim>\<open>OSError\<close> raised while the manifest path itself is written (a missing source file,
  a marker or a group that is not found, a manifest that is not there, a backup that
  cannot be written) leaves the manifest file with the content it had when the run began.
\<close>

theorem run_stopped_before_write_leaves_manifest:
  "(main rng w p fs = (out, w') \<longrightarrow> out \<noteq> Completed \<longrightarrow> out \<noteq> Uncaught (OSError p)
      \<longrightarrow> files w' p = files w p)
   \<and> (add_to_xcode_v2 rng w p = (out, w') \<longrightarrow> out \<noteq> Completed \<longrightarrow> out \<noteq> Uncaught (OSError p)
      \<longrightarrow> files w' p = files w p)"
proof (intro conjI)
  show "main rng w p fs = (out, w') \<longrightarrow> out \<noteq> Completed \<longrightarrow> out \<noteq> Uncaught (OSError p)
      \<longrightarrow> files w' p = files w p"
    by (simp add: main_eq suffixed_neq split: option.split sum.split) auto
  show "add_to_xcode_v2 rng w p = (out, w') \<longrightarrow> out \<noteq> Completed
      \<longrightarrow> out \<noteq> Uncaught (OSError p) \<longrightarrow> files w' p = files w p"
    by (simp add: add_to_xcode_v2_eq suffixed_neq split: option.split sum.split) auto
qed

theorem run_stopped_before_write_leaves_manifest_witness:
  "main rng0 (sample_world ''/* Begin PBXBuildFile section */'') ''/proj'' [''/src/A.swift'']
     = (Exit1 (Restored (CouldNotFind ''PBXFileReference section'')),
        snd (main rng0 (sample_world ''/* Begin PBXBuildFile section */'') ''/proj'' [''/src/A.swift'']))
   \<and> files (snd (main rng0 (sample_world ''/* Begin PBXBuildFile section */'') ''/proj''
                 [''/src/A.swift''])) ''/proj''
       = files (sample_world ''/* Begin PBXBuildFile section */'') ''/proj''
   \<and> add_to_xcode_v2 rng0 (manifest_only ''/* Begin PBXGroup section */'') ''/proj''
     = (Exit1 (NotFound ''Chat group UUID''),
        snd (add_to_xcode_v2 rng0 (manifest_only ''/* Begin PBXGroup section */'') ''/proj''))
   \<and> files (snd (add_to_xcode_v2 rng0 (manifest_only ''/* Begin PBXGroup section */'') ''/proj''))
         ''/proj''
       = files (manifest_only ''/* Begin PBXGroup section */'') ''/proj''"
proof -
  define w1 where
    "w1 = snd (main rng0 (sample_world ''/* Begin PBXBuildFile section */'') ''/proj''
                 [''/src/A.swift''])"
  define w2 where
    "w2 = snd (add_to_xcode_v2 rng0 (manifest_only ''/* Begin PBXGroup section */'') ''/proj'')"
  have e: "patch_content (file_entries rng0 0 [''/src/A.swift''])
             (universal_newlines ''/* Begin PBXBuildFile section */'')
           = Inl (CouldNotFind ''PBXFileReference section'')"
    by (simp only: sample_entries half_manifest_fails marker_newlines)
  have 1: "main rng0 (sample_world ''/* Begin PBXBuildFile section */'') ''/proj'' [''/src/A.swift'']
     = (Exit1 (Restored (CouldNotFind ''PBXFileReference section'')), w1)"
    unfolding w1_def
    by (simp add: main_eq e sample_world_def accepted_def del: file_entries.simps)
  have 2: "add_to_xcode_v2 rng0 (manifest_only ''/* Begin PBXGroup section */'') ''/proj''
     = (Exit1 (NotFound ''Chat group UUID''), w2)"
    unfolding w2_def
    by (simp add: add_to_xcode_v2_eq patch_content_v2_def no_chat_group manifest_only_def
          accepted_def marker_newlines)
  have 3: "files w1 ''/proj'' = files (sample_world ''/* Begin PBXBuildFile section */'') ''/proj''"
    using 1 run_stopped_before_write_leaves_manifest
        [of rng0 "sample_world ''/* Begin PBXBuildFile section */''" "''/proj''"
          "[''/src/A.swift'']" "Exit1 (Restored (CouldNotFind ''PBXFileReference section''))" w1]
    by simp
  have 4: "files w2 ''/proj'' = files (manifest_only ''/* Begin PBXGroup section */'') ''/proj''"
    using 2 run_stopped_before_write_leaves_manifest
        [of rng0 "manifest_only ''/* Begin PBXGroup section */''" "''/proj''" "[]"
          "Exit1 (NotFound ''Chat group UUID'')" w2]
    by simp
  show ?thesis
    using 1 2 3 4 unfolding w1_def w2_def by blast
qed

text \<open>
  C5, as the specification states it, fails: the commit of a run that succeeds truncates
  the manifest path itself and then writes to it. In the sample run another process can
  find the manifest empty, which is neither the text found nor the text written.
\<close>

theorem commit_is_atomic_counterexample:
  "fst (main rng0 (sample_world manifest_ok) ''/proj'' [''/src/A.swift'']) = Completed
   \<and> files (sample_world manifest_ok) ''/proj'' = Some manifest_ok
   \<and> manifest_ok \<noteq> []
   \<and> Some [] \<in> set (contents_during
        (trace (snd (main rng0 (sample_world manifest_ok) ''/proj'' [''/src/A.swift''])))
        (files (sample_world manifest_ok)) ''/proj'')"
proof -
  obtain c' where "main rng0 (sample_world manifest_ok) ''/proj'' [''/src/A.swift''] =
       (Completed,
        \<lparr>files = [''/proj'' \<mapsto> manifest_ok, ''/src/A.swift'' \<mapsto> ''import X'',
                  ''/proj.backup'' \<mapsto> manifest_ok, ''/proj'' \<mapsto> c'],
         trace = [Exists ''/src/A.swift'', Copy ''/proj'' ''/proj.backup'', ReadAll ''/proj'',
                  Truncate ''/proj'', WriteData ''/proj'' c'],
         write_error = Map.empty\<rparr>)"
    using sample_run [of manifest_ok] by blast
  then show ?thesis
    by (simp add: contents_during_def sample_world_def manifest_ok_def)
qed

text \<open>
  C5, amended. A run that commits ends with two events on the manifest path itself: the
  path is truncated, then the patched text is written to it. Before them the run has only
  checked the source files (first script), read the manifest and copied it to the backup.
\<close>

theorem commit_writes_in_place:
  "(main rng w p fs = (Completed, w') \<longrightarrow>
      (\<exists>c'. files w' p = Some c' \<and>
            trace w' = trace w @ map Exists fs
              @ [Copy p (p @ ''.backup''), ReadAll p, Truncate p, WriteData p c']))
   \<and> (add_to_xcode_v2 rng w p = (Completed, w') \<longrightarrow>
      (\<exists>c'. files w' p = Some c' \<and>
            trace w' = trace w
              @ [ReadAll p, Copy p (p @ ''.backup2''), Truncate p, WriteData p c']))"
  by (auto simp: main_eq add_to_xcode_v2_eq split: if_splits option.splits sum.splits)

theorem commit_writes_in_place_witness:
  "(\<exists>c'. files (snd (main rng0 (sample_world manifest_ok) ''/proj'' [''/src/A.swift''])) ''/proj''
          = Some c' \<and>
        trace (snd (main rng0 (sample_world manifest_ok) ''/proj'' [''/src/A.swift''])) =
          [Exists ''/src/A.swift'', Copy ''/proj'' ''/proj.backup'', ReadAll ''/proj'',
           Truncate ''/proj'', WriteData ''/proj'' c'])
   \<and> (\<exists>c'. files (snd (add_to_xcode_v2 rng0 (manifest_only manifest_groups) ''/proj'')) ''/proj''
          = Some c' \<and>
        trace (snd (add_to_xcode_v2 rng0 (manifest_only manifest_groups) ''/proj'')) =
          [ReadAll ''/proj'', Copy ''/proj'' ''/proj.backup2'',
           Truncate ''/proj'', WriteData ''/proj'' c'])"
proof -
  have 1: "main rng0 (sample_world manifest_ok) ''/proj'' [''/src/A.swift''] =
      (Completed, snd (main rng0 (sample_world manifest_ok) ''/proj'' [''/src/A.swift'']))"
    using sample_run [of manifest_ok] by auto
  have 2: "add_to_xcode_v2 rng0 (manifest_only manifest_groups) ''/proj'' =
      (Completed, snd (add_to_xcode_v2 rng0 (manifest_only manifest_groups) ''/proj''))"
    using sample_run_v2 by auto
  show ?thesis
    using commit_writes_in_place [of rng0 "sample_world manifest_ok" "''/proj''" "[''/src/A.swift'']"
            "snd (main rng0 (sample_world manifest_ok) ''/proj'' [''/src/A.swift''])"] 1
          commit_writes_in_place [of rng0 "manifest_only manifest_groups" "''/proj''" "[]"
            "snd (add_to_xcode_v2 rng0 (manifest_only manifest_groups) ''/proj'')"] 2
    by (simp add: sample_world_def manifest_only_def)
qed

text \<open>
  C7, as the specification states it, fails for the second script: it never asks whether
  a source file exists. In a world that holds the manifest and no other file, it commits.
\<close>

theorem missing_source_counterexample:
  "dom (files (manifest_only manifest_groups)) = {''/proj''}
   \<and> fst (add_to_xcode_v2 rng0 (manifest_only manifest_groups) ''/proj'') = Completed
   \<and> Truncate ''/proj''
       \<in> set (trace (snd (add_to_xcode_v2 rng0 (manifest_only manifest_groups) ''/proj'')))"
proof -
  obtain c' where "add_to_xcode_v2 rng0 (manifest_only manifest_groups) ''/proj'' =
       (Completed,
        \<lparr>files = [''/proj'' \<mapsto> manifest_groups, ''/proj.backup2'' \<mapsto> manifest_groups,
                  ''/proj'' \<mapsto> c'],
         trace = [ReadAll ''/proj'', Copy ''/proj'' ''/proj.backup2'',
                  Truncate ''/proj'', WriteData ''/proj'' c'],
         write_error = Map.empty\<rparr>)"
    using sample_run_v2 by blast
  then show ?thesis
    by (simp add: manifest_only_def)
qed

text \<open>
  C7, amended. In the first script, when a path of the input list does not exist, the run
  ends with \<^verbatim>\<open>exit(1)\<close> and the list of the missing paths; all it has done is ask, for each
  input path, whether it exists. The manifest has not been read, copied or written.
\<close>

theorem missing_source_stops_first_script:
  "\<exists>q\<in>set fs. files w q = None \<Longrightarrow>
     main rng w p fs =
       (Exit1 (MissingSourceFile (filter (\<lambda>q. files w q = None) fs)),
        w\<lparr>trace := trace w @ map Exists fs\<rparr>)"
  by (auto simp: main_eq filter_empty_conv)

theorem missing_source_stops_first_script_witness:
  "(\<exists>q\<in>set [''/src/A.swift'']. files (manifest_only manifest_ok) q = None)
   \<and> main rng0 (manifest_only manifest_ok) ''/proj'' [''/src/A.swift''] =
       (Exit1 (MissingSourceFile [''/src/A.swift'']),
        (manifest_only manifest_ok)\<lparr>trace := [Exists ''/src/A.swift'']\<rparr>)"
proof -
  have h: "\<exists>q\<in>set [''/src/A.swift'']. files (manifest_only manifest_ok) q = None"
    by (simp add: manifest_only_def)
  show ?thesis
    using h missing_source_stops_first_script [OF h, of rng0 "''/proj''"]
    by (simp add: manifest_only_def)
qed

end
